theory Spec2Isabelle
  imports Main
begin

section \<open>Element trees, handlers and errors\<close>

text \<open>
  The widgets are React function components. A component is modelled as a function from
  the value it reads from its context (\<open>None\<close> when no provider is above it), its local
  state where it has some, and its props, to the element tree it returns, or to the error
  it throws while rendering.

  An event handler is a function on the state \<open>'w\<close> of the application; it returns the
  new state, or the error it throws. \<open>'w\<close> holds the state kept by the providers
  (\<open>useState\<close>) together with whatever state the caller's own callbacks act on.

  Styling (\<open>className\<close>, \<open>style\<close>, the animation variants of framer-motion) and DOM
  refs carry no behaviour the components branch on and are left out of the element
  model: an element keeps its type, its click handler, its other attributes and its
  children.
\<close>

datatype error = Error string

type_synonym 'w handler = "'w \<Rightarrow> error + 'w"

text \<open>\<open>React.SetStateAction<S>\<close>: a new value, or a function of the previous one.\<close>

datatype 'a SetStateAction = Value 'a | Updater "'a \<Rightarrow> 'a"

fun resolve :: "'a SetStateAction \<Rightarrow> 'a \<Rightarrow> 'a" where
  "resolve (Value v) prev = v"
| "resolve (Updater f) prev = f prev"

text \<open>
  The type of an element: a host tag (\<open>button\<close>, \<open>div\<close>), a component (named by its
  \<open>displayName\<close>), or the fragment \<open><>...</>\<close>.
\<close>

datatype etype = Host string | Comp string | FragmentType

datatype container = DocumentBody

text \<open>
  The value of an attribute is a string or a boolean; as a condition, the empty string
  and \<open>false\<close> are falsy.
\<close>

datatype aval = Str string | Bool bool

fun truthy_aval :: "aval \<Rightarrow> bool" where
  "truthy_aval (Str s) = (s \<noteq> '''')"
| "truthy_aval (Bool b) = b"

text \<open>
  \<open>React.ReactNode\<close>: \<open>null\<close>, a string, an array of nodes, an element (type,
  \<open>onClick\<close>, attributes, children) or a portal made by \<open>createPortal\<close>.
  Attributes are listed in the order they are written; a later entry overrides an
  earlier one of the same name, as in a JSX spread.
\<close>

datatype 'w vnode =
    Null
  | Text string
  | Array "'w vnode list"
  | Element etype "('w \<Rightarrow> error + 'w) option" "(string \<times> aval) list" "'w vnode"
  | Portal "'w vnode" container

fun isValidElement :: "'w vnode \<Rightarrow> bool" where
  "isValidElement (Element t h a c) = True"
| "isValidElement n = False"

text \<open>
  \<open>React.Children.only\<close> returns its argument when it is a single element and throws
  otherwise.
\<close>

definition Children_only :: "'w vnode \<Rightarrow> error + 'w vnode" where
  "Children_only children =
     (if isValidElement children then Inr children
      else Inl (Error ''React.Children.only expected to receive a single React element child.''))"

text \<open>
  The props a caller passes to one of the button-like components: the children, the
  caller's own \<open>onClick\<close> if the props have that key, \<open>asChild\<close>, and the remaining
  attributes (\<open>disabled\<close> among them). An \<open>onClick\<close> passed as \<open>undefined\<close> is a
  key of the props too: it acts as a handler that does nothing.
\<close>

record 'w props =
  children :: "'w vnode"
  onClick :: "('w \<Rightarrow> error + 'w) option"
  asChild :: bool
  attrs :: "(string \<times> aval) list"

text \<open>
  \<open><button onClick={h} {...props}>\<close>: the spread comes after the component's own
  handler, so an \<open>onClick\<close> among the props replaces it.
\<close>

definition spread_after :: "'w handler \<Rightarrow> 'w props \<Rightarrow> ('w \<Rightarrow> error + 'w) option" where
  "spread_after h p = (case onClick p of None \<Rightarrow> Some h | Some g \<Rightarrow> Some g)"

text \<open>The value an element has for an attribute: the last entry of that name.\<close>

definition attr :: "(string \<times> aval) list \<Rightarrow> string \<Rightarrow> aval option" where
  "attr a k = map_of (rev a) k"

definition disabled_attr :: "(string \<times> aval) list \<Rightarrow> bool" where
  "disabled_attr a = (case attr a ''disabled'' of None \<Rightarrow> False | Some v \<Rightarrow> truthy_aval v)"

text \<open>
  Which elements a click reaches. React delivers no click to a \<open>button\<close>,
  \<open>input\<close>, \<open>select\<close> or \<open>textarea\<close> whose \<open>disabled\<close> is truthy; every
  other host element receives it (the element is taken not to be disabled from outside,
  by a \<open>fieldset\<close> around it). Of the components only \<open>motion.div\<close> is known to
  the model: it renders a \<open>div\<close> and hands it its handlers. What another component
  does with an \<open>onClick\<close> among its props is not known, and a fragment renders no
  element of its own; a click on either runs no handler in the model.
\<close>

fun receives_click :: "etype \<Rightarrow> (string \<times> aval) list \<Rightarrow> bool" where
  "receives_click (Host tag) a =
     (\<not> (tag \<in> {''button'', ''input'', ''select'', ''textarea''} \<and> disabled_attr a))"
| "receives_click (Comp n) a = (n = ''motion.div'')"
| "receives_click FragmentType a = False"

text \<open>
  Clicking a node runs the click handler of that element, if it has one and the click
  reaches it. The handlers of its ancestors, to which the browser would pass the event
  next, are not run.
\<close>

fun click :: "'w vnode \<Rightarrow> 'w handler" where
  "click (Element t (Some h) a c) w = (if receives_click t a then h w else Inr w)"
| "click n w = Inr w"

section \<open>Drawer\<close>

text \<open>
  \<open>DrawerContextValue\<close> and \<open>SheetContextValue\<close> declare the same two fields, and
  \<open>DrawerProps\<close> and \<open>SheetProps\<close> the same four; one record models each pair.
  \<open>controlledOpen\<close> is the prop \<open>open\<close>, under the name both components bind it to.
  The callback \<open>onOpenChange\<close> belongs to the caller: it acts on the caller's part
  \<open>env\<close> of the state and cannot reach \<open>uncontrolledOpen\<close>.
\<close>

record 'w ContextValue =
  ctx_open :: bool
  ctx_setOpen :: "bool SetStateAction \<Rightarrow> 'w \<Rightarrow> 'w"

record 'e OpenProps =
  defaultOpen :: "bool option"
  controlledOpen :: "bool option"
  onOpenChange :: "(bool \<Rightarrow> 'e \<Rightarrow> 'e) option"

record 'e open_state =
  uncontrolledOpen :: bool
  env :: 'e

text \<open>\<open>React.useState(defaultOpen)\<close> with \<open>defaultOpen = false\<close> by default.\<close>

definition initial_state :: "'e OpenProps \<Rightarrow> 'e \<Rightarrow> 'e open_state" where
  "initial_state p e =
     \<lparr>uncontrolledOpen = (case defaultOpen p of None \<Rightarrow> False | Some b \<Rightarrow> b), env = e\<rparr>"

text \<open>
  \<open>Drawer\<close> returns the value it hands to \<open>DrawerContext.Provider\<close>. The closure
  \<open>setOpen\<close> sees \<open>open\<close> as of the render that made it.
\<close>

definition Drawer :: "'e OpenProps \<Rightarrow> 'e open_state \<Rightarrow> 'e open_state ContextValue" where
  "Drawer p st =
     (let isControlled = (controlledOpen p \<noteq> None);
          opn = (case controlledOpen p of Some b \<Rightarrow> b | None \<Rightarrow> uncontrolledOpen st);
          setOpen = (\<lambda>v s.
            let s1 = (if \<not> isControlled
                      then s\<lparr>uncontrolledOpen := resolve v (uncontrolledOpen s)\<rparr> else s)
            in (case onOpenChange p of
                  Some cb \<Rightarrow> (let nextValue = resolve v opn in s1\<lparr>env := cb nextValue (env s1)\<rparr>)
                | None \<Rightarrow> s1))
      in \<lparr>ctx_open = opn, ctx_setOpen = setOpen\<rparr>)"

definition useDrawerContext ::
  "'w ContextValue option \<Rightarrow> error + 'w ContextValue" where
  "useDrawerContext context =
     (case context of
        None \<Rightarrow> Inl (Error ''useDrawerContext must be used within a Drawer'')
      | Some c \<Rightarrow> Inr c)"

definition DrawerTrigger :: "'w ContextValue option \<Rightarrow> 'w props \<Rightarrow> error + 'w vnode" where
  "DrawerTrigger context p =
     (case useDrawerContext context of
        Inl e \<Rightarrow> Inl e
      | Inr c \<Rightarrow>
          Inr (Element (Host ''button'')
                 (spread_after (\<lambda>w. Inr (ctx_setOpen c (Value True) w)) p)
                 ((''type'', Str ''button'') # attrs p)
                 (children p)))"

definition DrawerContentInner :: "'w ContextValue option \<Rightarrow> 'w props \<Rightarrow> error + 'w vnode" where
  "DrawerContentInner context p =
     (case useDrawerContext context of
        Inl e \<Rightarrow> Inl e
      | Inr c \<Rightarrow>
          Inr (Element (Host ''div'') None []
                 (Array
                    [Element (Comp ''motion.div'')
                       (Some (\<lambda>w. Inr (ctx_setOpen c (Value False) w))) [] Null,
                     Element (Comp ''motion.div'') (onClick p)
                       ([(''role'', Str ''dialog''), (''aria-modal'', Str ''true'')] @ attrs p)
                       (Array
                          [Element (Host ''div'') None [] Null,
                           children p,
                           Element (Host ''button'')
                             (Some (\<lambda>w. Inr (ctx_setOpen c (Value False) w)))
                             [(''aria-label'', Str ''Close drawer'')]
                             (Array
                                [Element (Comp ''X'') None [] Null,
                                 Element (Host ''span'') None [] (Text ''Close drawer'')])])])))"

text \<open>
  \<open>DrawerContent\<close> returns the element \<open><DrawerContentInner {...props} />\<close> inside
  \<open>AnimatePresence\<close>, inside a portal; it does not call the inner component itself.
\<close>

definition DrawerContent :: "'w ContextValue option \<Rightarrow> 'w props \<Rightarrow> error + 'w vnode" where
  "DrawerContent context p =
     (case useDrawerContext context of
        Inl e \<Rightarrow> Inl e
      | Inr c \<Rightarrow>
          if \<not> ctx_open c then Inr Null
          else Inr (Portal
                 (Element (Comp ''AnimatePresence'') None []
                    (Element (Comp ''DrawerContentInner'') (onClick p) (attrs p) (children p)))
                 DocumentBody))"

definition DrawerClose :: "'w ContextValue option \<Rightarrow> 'w props \<Rightarrow> error + 'w vnode" where
  "DrawerClose context p =
     (case useDrawerContext context of
        Inl e \<Rightarrow> Inl e
      | Inr c \<Rightarrow>
          Inr (Element (Host ''button'')
                 (spread_after (\<lambda>w. Inr (ctx_setOpen c (Value False) w)) p)
                 ((''type'', Str ''button'') # attrs p)
                 (children p)))"

section \<open>Sheet\<close>

definition Sheet :: "'e OpenProps \<Rightarrow> 'e open_state \<Rightarrow> 'e open_state ContextValue" where
  "Sheet p st =
     (let isControlled = (controlledOpen p \<noteq> None);
          opn = (case controlledOpen p of Some b \<Rightarrow> b | None \<Rightarrow> uncontrolledOpen st);
          setOpen = (\<lambda>v s.
            let s1 = (if \<not> isControlled
                      then s\<lparr>uncontrolledOpen := resolve v (uncontrolledOpen s)\<rparr> else s)
            in (case onOpenChange p of
                  Some cb \<Rightarrow> (let nextValue = resolve v opn in s1\<lparr>env := cb nextValue (env s1)\<rparr>)
                | None \<Rightarrow> s1))
      in \<lparr>ctx_open = opn, ctx_setOpen = setOpen\<rparr>)"

text \<open>
  The Sheet components read the context as
  \<open>React.useContext(SheetContext) || { open: false, setOpen: () => {} }\<close>.
\<close>

definition sheet_open :: "'w ContextValue option \<Rightarrow> bool" where
  "sheet_open context = (case context of Some c \<Rightarrow> ctx_open c | None \<Rightarrow> False)"

definition sheet_setOpen :: "'w ContextValue option \<Rightarrow> bool SetStateAction \<Rightarrow> 'w \<Rightarrow> 'w" where
  "sheet_setOpen context = (case context of Some c \<Rightarrow> ctx_setOpen c | None \<Rightarrow> (\<lambda>v w. w))"

text \<open>
  With \<open>asChild\<close>, \<open>SheetTrigger\<close> takes its single child through
  \<open>React.Children.only\<close> and clones it with the merged props and a handler that calls
  \<open>setOpen(true)\<close> and then the child's own \<open>onClick\<close>; the child keeps its
  children. The branch that logs to the console and returns \<open>null\<close> is kept as the
  source has it.
\<close>

definition SheetTrigger :: "'w ContextValue option \<Rightarrow> 'w props \<Rightarrow> error + 'w vnode" where
  "SheetTrigger context p =
     (let setOpen = sheet_setOpen context in
      case (if asChild p then Children_only (children p) else Inr Null) of
        Inl e \<Rightarrow> Inl e
      | Inr child \<Rightarrow>
          if asChild p then
            (case child of
               Element t h a c \<Rightarrow>
                 Inr (Element t
                        (Some (\<lambda>w. case h of
                                      None \<Rightarrow> Inr (setOpen (Value True) w)
                                    | Some g \<Rightarrow> g (setOpen (Value True) w)))
                        (a @ attrs p)
                        c)
             | _ \<Rightarrow> Inr Null)
          else
            Inr (Element (Host ''button'')
                   (spread_after (\<lambda>w. Inr (setOpen (Value True) w)) p)
                   ((''type'', Str ''button'') # attrs p)
                   (children p)))"


text \<open>\<open>SheetPortal\<close> takes only \<open>children\<close>.\<close>

definition SheetPortal :: "'w ContextValue option \<Rightarrow> 'w vnode \<Rightarrow> error + 'w vnode" where
  "SheetPortal context chldrn =
     (if sheet_open context then Inr (Element FragmentType None [] chldrn) else Inr Null)"

text \<open>
  \<open>SheetOverlay\<close> strips the drag and animation-start handlers from its props; an
  \<open>onClick\<close> stays among the rest and is spread after the overlay's own handler.
\<close>

definition SheetOverlay :: "'w ContextValue option \<Rightarrow> 'w props \<Rightarrow> error + 'w vnode" where
  "SheetOverlay context p =
     (let setOpen = sheet_setOpen context in
      Inr (Element (Comp ''motion.div'')
             (spread_after (\<lambda>w. Inr (setOpen (Value False) w)) p)
             (attrs p)
             Null))"

definition SheetContentInner :: "'w ContextValue option \<Rightarrow> 'w props \<Rightarrow> error + 'w vnode" where
  "SheetContentInner context p =
     (let opn = sheet_open context; setOpen = sheet_setOpen context in
      if \<not> opn then Inr Null
      else
        Inr (Element (Host ''div'') None []
               (Array
                  [Element (Comp ''motion.div'')
                     (Some (\<lambda>w. Inr (setOpen (Value False) w))) [] Null,
                   Element (Comp ''motion.div'') (onClick p) (attrs p) (children p)])))"

text \<open>
  \<open>SheetContent\<close> keeps the state \<open>mounted\<close>, false at the first render and set by an
  effect after it. It reads only \<open>open\<close> from the context; the \<open>setOpen\<close> its
  backdrop calls is the function declared in the component's own body.
\<close>

definition SheetContent_setOpen :: "bool \<Rightarrow> 'w handler" where
  "SheetContent_setOpen arg0 w = Inl (Error ''Function not implemented.'')"

definition SheetContent ::
  "'w ContextValue option \<Rightarrow> bool \<Rightarrow> 'w props \<Rightarrow> error + 'w vnode" where
  "SheetContent context mounted p =
     (let opn = sheet_open context in
      if \<not> mounted \<or> \<not> opn then Inr (Element (Host ''div'') None [(''style'', Str ''display: none'')] Null)
      else
        Inr (Portal
               (Element (Comp ''AnimatePresence'') None []
                  (Element (Host ''div'') None []
                     (Array
                        [Element (Comp ''motion.div'')
                           (Some (SheetContent_setOpen False)) [] Null,
                         Element (Comp ''motion.div'') (onClick p) (attrs p) (children p)])))
               DocumentBody))"

text \<open>The effect \<open>useEffect(() => { setMounted(true) }, [])\<close>.\<close>

definition SheetContent_mount :: "bool \<Rightarrow> bool" where
  "SheetContent_mount mounted = True"

section \<open>Select\<close>

text \<open>
  \<open>SelectProps\<close> has the three props of \<open>OpenProps\<close> (its \<open>open\<close> is
  \<open>controlledOpen\<close>) and four more; \<open>valueProp\<close> is the prop \<open>value\<close>.
\<close>

record 'e SelectProps = "'e OpenProps" +
  defaultValue :: "string option"
  valueProp :: "string option"
  onValueChange :: "(string \<Rightarrow> 'e \<Rightarrow> 'e) option"
  disabled :: "bool option"

record 'e select_state =
  selectedValue :: string
  isOpen :: bool
  searchQuery :: string
  sel_env :: 'e

text \<open>\<open>SelectContextType\<close>, without the DOM ref \<open>triggerRef\<close>.\<close>

record 'w SelectContextType =
  sel_value :: string
  sel_onValueChange :: "string \<Rightarrow> 'w \<Rightarrow> 'w"
  sel_open :: bool
  sel_setOpen :: "bool \<Rightarrow> 'w \<Rightarrow> 'w"
  sel_searchQuery :: string
  sel_setSearchQuery :: "string \<Rightarrow> 'w \<Rightarrow> 'w"

text \<open>
  The initial state: \<open>useState(value || defaultValue)\<close> with \<open>defaultValue = ""\<close>,
  \<open>useState(open || defaultOpen)\<close> with \<open>defaultOpen = false\<close>, \<open>useState("")\<close>.
  An empty string and \<open>undefined\<close> are both falsy.
\<close>

definition Select_initial :: "('e, 'x) SelectProps_scheme \<Rightarrow> 'e \<Rightarrow> 'e select_state" where
  "Select_initial p e =
     \<lparr>selectedValue =
        (case valueProp p of
           Some v \<Rightarrow> if v \<noteq> '''' then v else (case defaultValue p of None \<Rightarrow> '''' | Some d \<Rightarrow> d)
         | None \<Rightarrow> (case defaultValue p of None \<Rightarrow> '''' | Some d \<Rightarrow> d)),
      isOpen =
        (case controlledOpen p of
           Some True \<Rightarrow> True
         | _ \<Rightarrow> (case defaultOpen p of None \<Rightarrow> False | Some b \<Rightarrow> b)),
      searchQuery = '''',
      sel_env = e\<rparr>"

definition handleValueChange ::
  "('e, 'x) SelectProps_scheme \<Rightarrow> string \<Rightarrow> 'e select_state \<Rightarrow> 'e select_state" where
  "handleValueChange p newValue s =
     (let s1 = (if valueProp p = None then s\<lparr>selectedValue := newValue\<rparr> else s)
      in case onValueChange p of
           Some cb \<Rightarrow> s1\<lparr>sel_env := cb newValue (sel_env s1)\<rparr>
         | None \<Rightarrow> s1)"

definition handleOpenChange ::
  "('e, 'x) SelectProps_scheme \<Rightarrow> bool \<Rightarrow> 'e select_state \<Rightarrow> 'e select_state" where
  "handleOpenChange p newOpen s =
     (if (case disabled p of None \<Rightarrow> False | Some d \<Rightarrow> d) then s
      else
        let s1 = (if controlledOpen p = None then s\<lparr>isOpen := newOpen\<rparr> else s)
        in case onOpenChange p of
             Some cb \<Rightarrow> s1\<lparr>sel_env := cb newOpen (sel_env s1)\<rparr>
           | None \<Rightarrow> s1)"

definition Select ::
  "('e, 'x) SelectProps_scheme \<Rightarrow> 'e select_state \<Rightarrow> 'e select_state SelectContextType" where
  "Select p st =
     \<lparr>sel_value = selectedValue st,
      sel_onValueChange = handleValueChange p,
      sel_open = isOpen st,
      sel_setOpen = handleOpenChange p,
      sel_searchQuery = searchQuery st,
      sel_setSearchQuery = (\<lambda>query s. s\<lparr>searchQuery := query\<rparr>)\<rparr>"

text \<open>
  The three effects of \<open>Select\<close>, each run after the first render and after a render in
  which its dependency (\<open>value\<close>, \<open>open\<close>, \<open>isOpen\<close>) has changed.
\<close>

definition effect_value :: "('e, 'x) SelectProps_scheme \<Rightarrow> 'e select_state \<Rightarrow> 'e select_state" where
  "effect_value p st = (case valueProp p of Some v \<Rightarrow> st\<lparr>selectedValue := v\<rparr> | None \<Rightarrow> st)"

definition effect_open :: "('e, 'x) SelectProps_scheme \<Rightarrow> 'e select_state \<Rightarrow> 'e select_state" where
  "effect_open p st = (case controlledOpen p of Some b \<Rightarrow> st\<lparr>isOpen := b\<rparr> | None \<Rightarrow> st)"

definition effect_isOpen :: "'e select_state \<Rightarrow> 'e select_state" where
  "effect_isOpen st = (if \<not> isOpen st then st\<lparr>searchQuery := ''''\<rparr> else st)"

text \<open>
  The state after an event whose handler took \<open>st\<close> to \<open>st'\<close>, once React has rendered
  again with the same props: of the three dependencies only \<open>isOpen\<close> can have changed.
\<close>

definition Select_commit :: "'e select_state \<Rightarrow> 'e select_state \<Rightarrow> 'e select_state" where
  "Select_commit st st' = (if isOpen st' \<noteq> isOpen st then effect_isOpen st' else st')"

record 'w SelectValueProps = "'w props" +
  placeholder :: "string option"

text \<open>
  JavaScript truthiness of a node: \<open>null\<close> and the empty string are falsy, every
  object is truthy.
\<close>

fun truthy :: "'w vnode \<Rightarrow> bool" where
  "truthy Null = False"
| "truthy (Text s) = (s \<noteq> '''')"
| "truthy n = True"

fun displayName :: "etype \<Rightarrow> string option" where
  "displayName (Comp n) = Some n"
| "displayName t = None"

text \<open>
  \<open>findDisplayValue\<close> walks the nodes with \<open>React.Children.forEach\<close>, which goes
  through nested arrays; the third argument is the variable \<open>displayValue\<close> the
  callback assigns.
\<close>

fun findDisplayValue :: "string \<Rightarrow> 'w vnode \<Rightarrow> 'w vnode \<Rightarrow> 'w vnode"
  and findDisplayValues :: "string \<Rightarrow> 'w vnode list \<Rightarrow> 'w vnode \<Rightarrow> 'w vnode" where
  "findDisplayValue v (Array ns) d = findDisplayValues v ns d"
| "findDisplayValue v (Element t h a c) d =
     (if truthy d then d
      else if displayName t = Some ''SelectItem'' \<and> attr a ''value'' = Some (Str v) then c
      else if displayName t = Some ''SelectGroup'' then findDisplayValue v c d
      else d)"
| "findDisplayValue v Null d = d"
| "findDisplayValue v (Text s) d = d"
| "findDisplayValue v (Portal n k) d = d"
| "findDisplayValues v [] d = d"
| "findDisplayValues v (n # ns) d = findDisplayValues v ns (findDisplayValue v n d)"

definition SelectValue ::
  "'w SelectContextType option \<Rightarrow> ('w, 'x) SelectValueProps_scheme \<Rightarrow> error + 'w vnode" where
  "SelectValue context p =
     (case context of
        None \<Rightarrow> Inl (Error ''SelectValue must be used within a Select'')
      | Some c \<Rightarrow>
          let parentChildren = children p;
              displayValue = findDisplayValue (sel_value c) parentChildren Null;
              content =
                (if truthy displayValue then displayValue
                 else if sel_value c \<noteq> '''' then Text (sel_value c)
                 else (case placeholder p of Some s \<Rightarrow> Text s | None \<Rightarrow> Null))
          in Inr (Element (Host ''span'') (onClick p) (attrs p)
                    (if truthy content then content
                     else Element (Host ''span'') None [] (Text ''Select an option''))))"

text \<open>
  The search field shown while the select is open stops the propagation of a click, so
  a click on it changes nothing.
\<close>

definition SelectTrigger ::
  "'w SelectContextType option \<Rightarrow> 'w props \<Rightarrow> error + 'w vnode" where
  "SelectTrigger context p =
     (case context of
        None \<Rightarrow> Inl (Error ''SelectTrigger must be used within a Select'')
      | Some c \<Rightarrow>
          let opn = sel_open c; setOpen = sel_setOpen c in
          Inr (Element (Host ''button'')
                 (spread_after (\<lambda>w. Inr (setOpen (\<not> opn) w)) p)
                 ([(''type'', Str ''button''),
                   (''data-state'', Str (if opn then ''open'' else ''closed'')),
                   (''aria-expanded'', Bool opn)] @ attrs p)
                 (Array
                    [if opn
                     then Element (Host ''input'') (Some (\<lambda>w. Inr w))
                            [(''type'', Str ''text''), (''value'', Str (sel_searchQuery c)),
                             (''placeholder'', Str ''Search...'')] Null
                     else children p,
                     Element (Comp ''ChevronDown'') None [] Null])))"

section \<open>Markup components and the layout\<close>

text \<open>
  \<open>DrawerHeader\<close>, \<open>DrawerFooter\<close>, \<open>DrawerTitle\<close>, \<open>DrawerDescription\<close>, their
  Sheet counterparts, \<open>SelectGroup\<close> and the two scroll buttons read no context and
  keep no state: each returns one host element carrying the props it was given.
\<close>

definition markup :: "string \<Rightarrow> 'w props \<Rightarrow> error + 'w vnode" where
  "markup tag p = Inr (Element (Host tag) (onClick p) (attrs p) (children p))"

text \<open>
  \<open>Layout\<close> wraps its children in the page skeleton. The function \<open>hydrateRoot\<close>
  declared after it in the same module is not exported and nothing calls it.
\<close>

definition Layout :: "'w vnode \<Rightarrow> error + 'w vnode" where
  "Layout chldrn =
     Inr (Element (Host ''html'') None [(''lang'', Str ''en'')]
            (Element (Host ''body'') None []
               (Array
                  [Element (Comp ''Navigation'') None [] Null,
                   Element (Comp ''InfoBar'') None [] Null,
                   chldrn])))"

definition hydrateRoot :: "'a \<Rightarrow> 'w vnode \<Rightarrow> error + unit" where
  "hydrateRoot arg0 arg1 = Inl (Error ''Function not implemented.'')"

section \<open>Events on rendered components\<close>

text \<open>
  \<open>click_on\<close> clicks the element a component returned; a component that threw has
  nothing to click, and the error stands. \<open>click_at\<close> clicks an element further inside,
  found by the path of child positions from the root.
\<close>

definition click_on :: "error + 'w vnode \<Rightarrow> 'w handler" where
  "click_on r w = (case r of Inl e \<Rightarrow> Inl e | Inr n \<Rightarrow> click n w)"

definition and_then :: "error + 'a \<Rightarrow> ('a \<Rightarrow> error + 'b) \<Rightarrow> error + 'b" where
  "and_then r f = (case r of Inl e \<Rightarrow> Inl e | Inr x \<Rightarrow> f x)"

fun child_list :: "'w vnode \<Rightarrow> 'w vnode list" where
  "child_list (Array ns) = ns"
| "child_list Null = []"
| "child_list n = [n]"

fun child_at :: "'w vnode \<Rightarrow> nat \<Rightarrow> 'w vnode" where
  "child_at (Element t h a c) i = (if i < length (child_list c) then child_list c ! i else Null)"
| "child_at (Portal n k) i = (if i = 0 then n else Null)"
| "child_at n i = Null"

fun descend :: "'w vnode \<Rightarrow> nat list \<Rightarrow> 'w vnode" where
  "descend n [] = n"
| "descend n (i # path) = descend (child_at n i) path"

definition click_at :: "error + 'w vnode \<Rightarrow> nat list \<Rightarrow> 'w handler" where
  "click_at r path w = (case r of Inl e \<Rightarrow> Inl e | Inr n \<Rightarrow> click (descend n path) w)"


text \<open>One click on a \<open>SelectTrigger\<close> under a \<open>Select\<close>, followed by the effects.\<close>

definition Select_click ::
  "('e, 'x) SelectProps_scheme \<Rightarrow> 'e select_state props \<Rightarrow> 'e select_state handler" where
  "Select_click sp p st =
     (case click_on (SelectTrigger (Some (Select sp st)) p) st of
        Inl e \<Rightarrow> Inl e
      | Inr st' \<Rightarrow> Inr (Select_commit st st'))"


section \<open>Sample inputs\<close>

text \<open>
  Props with nothing set, props that carry the caller's own \<open>onClick\<close>, props with
  \<open>asChild\<close> and a given child, and props that disable the button. \<open>keep\<close> is a
  caller's handler that changes nothing and \<open>record_call\<close> an \<open>onOpenChange\<close> that
  appends its argument to a log.
\<close>

definition plain_props :: "'w props" where
  "plain_props = \<lparr>children = Null, onClick = None, asChild = False, attrs = []\<rparr>"

definition overriding :: "'w handler \<Rightarrow> 'w props" where
  "overriding h = \<lparr>children = Null, onClick = Some h, asChild = False, attrs = []\<rparr>"

definition as_child :: "'w vnode \<Rightarrow> 'w props" where
  "as_child n = \<lparr>children = n, onClick = None, asChild = True, attrs = []\<rparr>"

definition keep :: "'w handler" where
  "keep w = Inr w"

definition record_call :: "bool \<Rightarrow> bool list \<Rightarrow> bool list" where
  "record_call b calls = calls @ [b]"

definition uncontrolled :: "bool list OpenProps" where
  "uncontrolled = \<lparr>defaultOpen = None, controlledOpen = None, onOpenChange = Some record_call\<rparr>"

definition default_open :: "bool list OpenProps" where
  "default_open = \<lparr>defaultOpen = Some True, controlledOpen = None, onOpenChange = Some record_call\<rparr>"

definition controlled :: "bool \<Rightarrow> bool list OpenProps" where
  "controlled b = \<lparr>defaultOpen = None, controlledOpen = Some b, onOpenChange = Some record_call\<rparr>"

definition plain_select :: "bool list SelectProps" where
  "plain_select =
     \<lparr>defaultOpen = None, controlledOpen = None, onOpenChange = Some record_call,
      defaultValue = None, valueProp = None, onValueChange = None, disabled = None\<rparr>"

definition plain_value_props :: "'w SelectValueProps" where
  "plain_value_props =
     \<lparr>children = Null, onClick = None, asChild = False, attrs = [], placeholder = None\<rparr>"

definition disabled_props :: "'w props" where
  "disabled_props =
     \<lparr>children = Null, onClick = None, asChild = False, attrs = [(''disabled'', Bool True)]\<rparr>"


section \<open>Components used without their provider\<close>

text \<open>
  C2. \<open>DrawerTrigger\<close>, \<open>DrawerContent\<close> and \<open>DrawerClose\<close> rendered with no
  \<open>Drawer\<close> above them, and \<open>SelectValue\<close> and \<open>SelectTrigger\<close> rendered with no
  \<open>Select\<close> above them, throw an error, whatever their props, and return no element.
\<close>

theorem components_throw_without_provider:
  "DrawerTrigger None p1 = Inl (Error ''useDrawerContext must be used within a Drawer'')
   \<and> DrawerContent None p2 = Inl (Error ''useDrawerContext must be used within a Drawer'')
   \<and> DrawerClose None p3 = Inl (Error ''useDrawerContext must be used within a Drawer'')
   \<and> SelectValue None p4 = Inl (Error ''SelectValue must be used within a Select'')
   \<and> SelectTrigger None p5 = Inl (Error ''SelectTrigger must be used within a Select'')"
  by (simp add: DrawerTrigger_def DrawerContent_def DrawerClose_def useDrawerContext_def
        SelectValue_def SelectTrigger_def)

theorem components_throw_without_provider_witness:
  "DrawerTrigger None (plain_props :: nat props)
     = Inl (Error ''useDrawerContext must be used within a Drawer'')
   \<and> DrawerContent None (plain_props :: nat props)
     = Inl (Error ''useDrawerContext must be used within a Drawer'')
   \<and> DrawerClose None (plain_props :: nat props)
     = Inl (Error ''useDrawerContext must be used within a Drawer'')
   \<and> SelectValue None (plain_value_props :: nat SelectValueProps)
     = Inl (Error ''SelectValue must be used within a Select'')
   \<and> SelectTrigger None (plain_props :: nat props)
     = Inl (Error ''SelectTrigger must be used within a Select'')"
  by (rule components_throw_without_provider)

section \<open>Rendering follows the open state\<close>

text \<open>
  C3. For every props value, \<open>DrawerContent\<close> returns \<open>null\<close> whenever the open state
  of its context is false, and \<open>SheetPortal\<close> and \<open>SheetContentInner\<close> render nothing
  whenever the open state they read is false (a missing \<open>Sheet\<close> counts as closed).
\<close>

theorem closed_renders_nothing:
  "(\<not> ctx_open c \<longrightarrow> DrawerContent (Some c) p = Inr Null)
   \<and> (\<not> sheet_open context \<longrightarrow>
        SheetPortal context chldrn = Inr Null \<and> SheetContentInner context p' = Inr Null)"
  by (simp add: DrawerContent_def useDrawerContext_def SheetPortal_def SheetContentInner_def)

theorem closed_renders_nothing_witness:
  "\<not> ctx_open (Drawer uncontrolled (initial_state uncontrolled []))
   \<and> DrawerContent (Some (Drawer uncontrolled (initial_state uncontrolled []))) plain_props
       = Inr Null
   \<and> \<not> sheet_open (Some (Sheet uncontrolled (initial_state uncontrolled [])))
   \<and> SheetPortal (Some (Sheet uncontrolled (initial_state uncontrolled []))) (Text ''body'')
       = Inr Null
   \<and> SheetContentInner (Some (Sheet uncontrolled (initial_state uncontrolled []))) plain_props
       = Inr Null"
proof -
  have 1: "\<not> ctx_open (Drawer uncontrolled (initial_state uncontrolled []))"
    by (simp add: Drawer_def uncontrolled_def initial_state_def)
  have 2: "\<not> sheet_open (Some (Sheet uncontrolled (initial_state uncontrolled [])))"
    by (simp add: sheet_open_def Sheet_def uncontrolled_def initial_state_def)
  show ?thesis
    using 1 2
      closed_renders_nothing
        [of "Drawer uncontrolled (initial_state uncontrolled [])" plain_props
            "Some (Sheet uncontrolled (initial_state uncontrolled []))" "Text ''body''"
            plain_props]
    by simp
qed

text \<open>
  C4. Whenever the open state of its context is true, \<open>DrawerContent\<close> returns a portal
  into \<open>document.body\<close> that wraps the drawer content (the \<open>DrawerContentInner\<close>
  element with the same props, inside \<open>AnimatePresence\<close>); and \<open>SheetContent\<close>, once
  mounted, likewise returns a portal into \<open>document.body\<close>.
\<close>

theorem open_renders_portal_into_body:
  "(ctx_open c \<longrightarrow>
      DrawerContent (Some c) p =
        Inr (Portal
               (Element (Comp ''AnimatePresence'') None []
                  (Element (Comp ''DrawerContentInner'') (onClick p) (attrs p) (children p)))
               DocumentBody))
   \<and> (sheet_open context \<longrightarrow>
      SheetContent context True p' =
        Inr (Portal
               (Element (Comp ''AnimatePresence'') None []
                  (Element (Host ''div'') None []
                     (Array
                        [Element (Comp ''motion.div'') (Some (SheetContent_setOpen False)) [] Null,
                         Element (Comp ''motion.div'') (onClick p') (attrs p') (children p')])))
               DocumentBody))"
  by (simp add: DrawerContent_def useDrawerContext_def SheetContent_def)

theorem open_renders_portal_into_body_witness:
  "ctx_open (Drawer default_open (initial_state default_open []))
   \<and> DrawerContent (Some (Drawer default_open (initial_state default_open [])))
        (as_child (Text ''body'')) =
        Inr (Portal
               (Element (Comp ''AnimatePresence'') None []
                  (Element (Comp ''DrawerContentInner'') None [] (Text ''body'')))
               DocumentBody)
   \<and> sheet_open (Some (Sheet default_open (initial_state default_open [])))
   \<and> SheetContent (Some (Sheet default_open (initial_state default_open []))) True
        (as_child (Text ''body'')) =
        Inr (Portal
               (Element (Comp ''AnimatePresence'') None []
                  (Element (Host ''div'') None []
                     (Array
                        [Element (Comp ''motion.div'') (Some (SheetContent_setOpen False)) [] Null,
                         Element (Comp ''motion.div'') None [] (Text ''body'')])))
               DocumentBody)"
proof -
  have 1: "ctx_open (Drawer default_open (initial_state default_open []))"
    by (simp add: Drawer_def default_open_def initial_state_def)
  have 2: "sheet_open (Some (Sheet default_open (initial_state default_open [])))"
    by (simp add: sheet_open_def Sheet_def default_open_def initial_state_def)
  show ?thesis
    using 1 2
      open_renders_portal_into_body
        [of "Drawer default_open (initial_state default_open [])" "as_child (Text ''body'')"
            "Some (Sheet default_open (initial_state default_open []))"
            "as_child (Text ''body'')"]
    by (simp add: as_child_def)
qed

section \<open>The setter of Drawer and Sheet\<close>

text \<open>
  C5. For \<open>Drawer\<close> and \<open>Sheet\<close>: when the prop \<open>open\<close> is provided, \<open>setOpen\<close>
  leaves the state \<open>uncontrolledOpen\<close> as it was, for every argument; and in both modes,
  when \<open>onOpenChange\<close> is provided, \<open>setOpen\<close> calls it once, with the next value
  resolved against the current open value (a function argument is applied to it): the
  caller's state afterwards is the callback applied once, to that value, on the caller's
  state before. For a callback that appends its argument to a log, the log grows by
  exactly that one entry.
\<close>

theorem setOpen_controlled_frame_and_notification:
  "(controlledOpen p \<noteq> None \<longrightarrow>
      uncontrolledOpen (ctx_setOpen (Drawer p st) v s) = uncontrolledOpen s
      \<and> uncontrolledOpen (ctx_setOpen (Sheet p st) v s) = uncontrolledOpen s)
   \<and> (onOpenChange p = Some cb \<longrightarrow>
      env (ctx_setOpen (Drawer p st) v s) = cb (resolve v (ctx_open (Drawer p st))) (env s)
      \<and> env (ctx_setOpen (Sheet p st) v s) = cb (resolve v (ctx_open (Sheet p st))) (env s))
   \<and> (onOpenChange q = Some record_call \<longrightarrow>
      env (ctx_setOpen (Drawer q st') v s') = env s' @ [resolve v (ctx_open (Drawer q st'))]
      \<and> env (ctx_setOpen (Sheet q st') v s') = env s' @ [resolve v (ctx_open (Sheet q st'))])"
  by (auto simp add: Drawer_def Sheet_def Let_def record_call_def split: option.splits)

text \<open>
  In the instance the callback appends to a log: after \<open>setOpen(prev => !prev)\<close> on a
  sheet controlled with \<open>open = false\<close> the log holds the one entry \<open>true\<close>.
\<close>

theorem setOpen_controlled_frame_and_notification_witness:
  "controlledOpen (controlled False) \<noteq> None
   \<and> uncontrolledOpen (ctx_setOpen (Drawer (controlled False) (initial_state (controlled False) []))
        (Updater Not) (initial_state (controlled False) [])) = False
   \<and> uncontrolledOpen (ctx_setOpen (Sheet (controlled False) (initial_state (controlled False) []))
        (Updater Not) (initial_state (controlled False) [])) = False
   \<and> onOpenChange (controlled False) = Some record_call
   \<and> env (ctx_setOpen (Drawer (controlled False) (initial_state (controlled False) []))
        (Updater Not) (initial_state (controlled False) [])) = [True]
   \<and> env (ctx_setOpen (Sheet (controlled False) (initial_state (controlled False) []))
        (Updater Not) (initial_state (controlled False) [])) = [True]"
proof -
  have 1: "controlledOpen (controlled False) \<noteq> None"
    and 2: "onOpenChange (controlled False) = Some record_call"
    by (simp_all add: controlled_def)
  have 3: "ctx_open (Drawer (controlled False) (initial_state (controlled False) [])) = False"
    and 4: "ctx_open (Sheet (controlled False) (initial_state (controlled False) [])) = False"
    by (simp_all add: Drawer_def Sheet_def controlled_def)
  have 5: "uncontrolledOpen (initial_state (controlled False) []) = False"
    and 6: "env (initial_state (controlled False) []) = []"
    by (simp_all add: initial_state_def controlled_def)
  show ?thesis
    using 1 2
      setOpen_controlled_frame_and_notification
        [of "controlled False" "initial_state (controlled False) []" "Updater Not"
            "initial_state (controlled False) []" record_call "controlled False"
            "initial_state (controlled False) []" "initial_state (controlled False) []"]
    by (simp add: 3 4 5 6 record_call_def)
qed

section \<open>Clicks\<close>

lemma disabled_attr_Cons:
  "k \<noteq> ''disabled'' \<Longrightarrow> disabled_attr ((k, v) # a) = disabled_attr a"
  by (simp add: disabled_attr_def attr_def map_add_def split: option.splits)

lemma click_on_default:
  "onClick p = None \<Longrightarrow> receives_click t a \<Longrightarrow>
     click_on (Inr (Element t (spread_after h p) a c)) w = h w"
  by (simp add: click_on_def spread_after_def)

lemma plain_props_facts:
  "onClick plain_props = None" "\<not> asChild plain_props" "\<not> disabled_attr (attrs plain_props)"
  by (simp_all add: plain_props_def disabled_attr_def attr_def)

lemma plain_select_facts:
  "controlledOpen plain_select = None" "disabled plain_select \<noteq> Some True"
  "onOpenChange plain_select = Some record_call"
  by (simp_all add: plain_select_def)

text \<open>
  C6, as amended. When the props of \<open>SelectTrigger\<close> neither disable its button nor
  carry an \<open>onClick\<close> of their own, clicking the button calls \<open>setOpen\<close> with the
  negation of the current open state; hence for an uncontrolled \<open>Select\<close> that is not
  disabled, one such click inverts the open state and two consecutive clicks restore it.
\<close>

theorem SelectTrigger_click_toggles:
  "(onClick p = None \<and> \<not> disabled_attr (attrs p) \<longrightarrow>
      click_on (SelectTrigger (Some c) p) w = Inr (sel_setOpen c (\<not> sel_open c) w))
   \<and> (onClick q = None \<and> \<not> disabled_attr (attrs q)
        \<and> controlledOpen sp = None \<and> disabled sp \<noteq> Some True \<longrightarrow>
        map_sum id isOpen (Select_click sp q st) = Inr (\<not> isOpen st)
        \<and> map_sum id isOpen (and_then (Select_click sp q st) (Select_click sp q))
            = Inr (isOpen st))"
proof -
  have a: "onClick p = None \<and> \<not> disabled_attr (attrs p) \<longrightarrow>
      click_on (SelectTrigger (Some c) p) w = Inr (sel_setOpen c (\<not> sel_open c) w)"
    by (simp add: SelectTrigger_def Let_def click_on_default disabled_attr_Cons)
  have step: "Select_click sp q s = Inr (Select_commit s (handleOpenChange sp (\<not> isOpen s) s))"
    if "onClick q = None" "\<not> disabled_attr (attrs q)" for s
    using that
    by (simp add: Select_click_def SelectTrigger_def Let_def click_on_default
          disabled_attr_Cons Select_def)
  have flip: "isOpen (Select_commit s (handleOpenChange sp (\<not> isOpen s) s)) = (\<not> isOpen s)"
    if "controlledOpen sp = None" "disabled sp \<noteq> Some True" for s
    using that
    by (cases "disabled sp")
       (auto simp add: Select_commit_def handleOpenChange_def effect_isOpen_def Let_def
             split: option.splits)
  have b: "map_sum id isOpen (Select_click sp q st) = Inr (\<not> isOpen st)
        \<and> map_sum id isOpen (and_then (Select_click sp q st) (Select_click sp q))
            = Inr (isOpen st)"
    if h: "onClick q = None" "\<not> disabled_attr (attrs q)"
      "controlledOpen sp = None" "disabled sp \<noteq> Some True"
  proof -
    define s1 where "s1 = Select_commit st (handleOpenChange sp (\<not> isOpen st) st)"
    have 1: "Select_click sp q st = Inr s1"
      unfolding s1_def by (rule step [OF h(1,2)])
    have 2: "isOpen s1 = (\<not> isOpen st)"
      unfolding s1_def by (rule flip [OF h(3,4)])
    have 3: "isOpen (Select_commit s1 (handleOpenChange sp (\<not> isOpen s1) s1)) = (\<not> isOpen s1)"
      by (rule flip [OF h(3,4)])
    have 4: "Select_click sp q s1 = Inr (Select_commit s1 (handleOpenChange sp (\<not> isOpen s1) s1))"
      by (rule step [OF h(1,2)])
    show ?thesis
      using 2 3 by (simp add: 1 4 and_then_def)
  qed
  show ?thesis
    using a b by blast
qed

theorem SelectTrigger_click_toggles_witness:
  "onClick (plain_props :: bool list select_state props) = None
   \<and> \<not> disabled_attr (attrs (plain_props :: bool list select_state props))
   \<and> click_on (SelectTrigger (Some (Select plain_select (Select_initial plain_select [])))
        plain_props) (Select_initial plain_select [])
      = Inr \<lparr>selectedValue = '''', isOpen = True, searchQuery = '''', sel_env = [True]\<rparr>
   \<and> controlledOpen plain_select = None \<and> disabled plain_select \<noteq> Some True
   \<and> map_sum id isOpen (Select_click plain_select plain_props (Select_initial plain_select []))
      = Inr True
   \<and> map_sum id isOpen
        (and_then (Select_click plain_select plain_props (Select_initial plain_select []))
           (Select_click plain_select plain_props))
      = Inr False"
proof -
  have 1: "sel_setOpen (Select plain_select (Select_initial plain_select []))
             (\<not> sel_open (Select plain_select (Select_initial plain_select [])))
             (Select_initial plain_select [])
           = \<lparr>selectedValue = '''', isOpen = True, searchQuery = '''', sel_env = [True]\<rparr>"
    by (simp add: Select_def Select_initial_def handleOpenChange_def plain_select_def
          record_call_def)
  have 2: "isOpen (Select_initial plain_select []) = False"
    by (simp add: Select_initial_def plain_select_def)
  show ?thesis
    using SelectTrigger_click_toggles
            [of plain_props "Select plain_select (Select_initial plain_select [])"
                "Select_initial plain_select []" plain_props plain_select
                "Select_initial plain_select []"]
    by (simp add: 1 2 plain_select_facts plain_props_facts)
qed

text \<open>
  C6 as first stated fails at two kinds of props. An \<open>onClick\<close> among them is spread
  after the trigger's handler and runs in its place; and with \<open>disabled\<close> among them
  the button receives no click. Either way \<open>setOpen\<close> is not called and the select
  stays closed.
\<close>

theorem SelectTrigger_click_overridden:
  "click_on (SelectTrigger (Some (Select plain_select (Select_initial plain_select [])))
       (overriding keep)) (Select_initial plain_select [])
     \<noteq> Inr (sel_setOpen (Select plain_select (Select_initial plain_select []))
              (\<not> sel_open (Select plain_select (Select_initial plain_select [])))
              (Select_initial plain_select []))
   \<and> click_on (SelectTrigger (Some (Select plain_select (Select_initial plain_select [])))
       disabled_props) (Select_initial plain_select [])
     \<noteq> Inr (sel_setOpen (Select plain_select (Select_initial plain_select []))
              (\<not> sel_open (Select plain_select (Select_initial plain_select [])))
              (Select_initial plain_select []))
   \<and> map_sum id isOpen
        (Select_click plain_select (overriding keep) (Select_initial plain_select []))
     \<noteq> Inr (\<not> isOpen (Select_initial plain_select []))
   \<and> map_sum id isOpen
        (Select_click plain_select disabled_props (Select_initial plain_select []))
     \<noteq> Inr (\<not> isOpen (Select_initial plain_select []))"
  by (simp add: SelectTrigger_def Select_click_def Select_commit_def click_on_def
        spread_after_def overriding_def disabled_props_def keep_def Select_def
        Select_initial_def handleOpenChange_def plain_select_def record_call_def
        disabled_attr_def attr_def)








section \<open>Sheet components without a Sheet\<close>

text \<open>
  C8 says that no Sheet sub-component throws when it is rendered with no \<open>Sheet\<close> above
  it. \<open>SheetTrigger\<close> does: with \<open>asChild\<close> and children that are not a single
  element (a string, say) it throws while rendering, whatever the context, because
  \<open>React.Children.only\<close> runs before the branch that would log to the console and
  return \<open>null\<close>.
\<close>

theorem SheetTrigger_asChild_non_element_throws:
  "asChild p \<Longrightarrow> \<not> isValidElement (children p) \<Longrightarrow>
     SheetTrigger context p
       = Inl (Error ''React.Children.only expected to receive a single React element child.'')"
  by (simp add: SheetTrigger_def Children_only_def Let_def)

theorem SheetTrigger_asChild_non_element_throws_witness:
  "asChild (as_child (Text ''Open'') :: nat props)
   \<and> \<not> isValidElement (children (as_child (Text ''Open'') :: nat props))
   \<and> SheetTrigger None (as_child (Text ''Open'') :: nat props)
       = Inl (Error ''React.Children.only expected to receive a single React element child.'')"
proof -
  have 1: "asChild (as_child (Text ''Open'') :: nat props)"
    and 2: "\<not> isValidElement (children (as_child (Text ''Open'') :: nat props))"
    by (simp_all add: as_child_def)
  show ?thesis
    using 1 2 SheetTrigger_asChild_non_element_throws [OF 1 2, of None] by simp
qed

section \<open>Errors thrown inside a provider\<close>

text \<open>
  C1 says that every error the components throw comes from using a sub-component outside
  its provider. The code throws elsewhere: for a \<open>SheetContent\<close> that is mounted and
  reads an open state, inside its \<open>Sheet\<close>, a click on the backdrop (the first child of
  the \<open>div\<close> inside \<open>AnimatePresence\<close> inside the portal) throws
  \<open>Function not implemented.\<close>, for every props value and every state.
\<close>

theorem SheetContent_backdrop_click_throws:
  "sheet_open context \<Longrightarrow>
     click_at (SheetContent context True p) [0, 0, 0] w = Inl (Error ''Function not implemented.'')"
  by (simp add: SheetContent_def click_at_def SheetContent_setOpen_def)

theorem SheetContent_backdrop_click_throws_witness:
  "sheet_open (Some (Sheet default_open (initial_state default_open [])))
   \<and> click_at (SheetContent (Some (Sheet default_open (initial_state default_open []))) True
                 plain_props) [0, 0, 0] (initial_state default_open [])
       = Inl (Error ''Function not implemented.'')"
proof -
  have 1: "sheet_open (Some (Sheet default_open (initial_state default_open [])))"
    by (simp add: sheet_open_def Sheet_def default_open_def initial_state_def)
  show ?thesis
    using 1 SheetContent_backdrop_click_throws [OF 1, of plain_props "initial_state default_open []"]
    by simp
qed

end
